theory Spec2Isabelle
  imports Complex_Main
begin

section \<open>JavaScript numbers\<close>

text \<open>
  A JavaScript number is modelled as an exact real number or one of the three special
  values \<open>Infinity\<close>, \<open>-Infinity\<close> and \<open>NaN\<close>. Finite values are exact: a sum, a
  product or a quotient of finite numbers is the real one, where a double is rounded to 53
  bits, becomes an infinity beyond about \<open>1.8e308\<close> and \<open>0\<close> below about \<open>5e-324\<close>.
  The sign of zero is not modelled either (a zero divisor counts as \<open>+0\<close>). The
  statements below that are not plain formulas of the code are therefore about signs,
  guards and order, which rounding keeps, and conclude no finiteness.
\<close>

datatype jsnum = Fin real | PInf | NInf | NaN

text \<open>The operator \<open>a + b\<close> on numbers.\<close>

fun jsadd :: "jsnum \<Rightarrow> jsnum \<Rightarrow> jsnum" where
  "jsadd NaN _ = NaN"
| "jsadd _ NaN = NaN"
| "jsadd (Fin a) (Fin b) = Fin (a + b)"
| "jsadd PInf NInf = NaN"
| "jsadd NInf PInf = NaN"
| "jsadd PInf _ = PInf"
| "jsadd _ PInf = PInf"
| "jsadd NInf _ = NInf"
| "jsadd _ NInf = NInf"

text \<open>The sign of a number that is not \<open>NaN\<close>: \<open>1\<close>, \<open>0\<close> or \<open>-1\<close>.\<close>

fun jssign :: "jsnum \<Rightarrow> int" where
  "jssign (Fin a) = (if 0 < a then 1 else if a < 0 then - 1 else 0)"
| "jssign PInf = 1"
| "jssign NInf = - 1"
| "jssign NaN = 0"

definition signed_inf :: "int \<Rightarrow> jsnum" where
  "signed_inf s = (if s = 0 then NaN else if 0 < s then PInf else NInf)"

text \<open>The operator \<open>a * b\<close>: infinity times zero is \<open>NaN\<close>.\<close>

fun jsmul :: "jsnum \<Rightarrow> jsnum \<Rightarrow> jsnum" where
  "jsmul NaN _ = NaN"
| "jsmul _ NaN = NaN"
| "jsmul (Fin a) (Fin b) = Fin (a * b)"
| "jsmul a b = signed_inf (jssign a * jssign b)"

text \<open>
  The operator \<open>a / b\<close>: a finite number over zero is an infinity (or \<open>NaN\<close> for
  \<open>0 / 0\<close>), infinity over infinity is \<open>NaN\<close>, a finite number over infinity is zero.
\<close>

fun jsdiv :: "jsnum \<Rightarrow> jsnum \<Rightarrow> jsnum" where
  "jsdiv NaN _ = NaN"
| "jsdiv _ NaN = NaN"
| "jsdiv (Fin a) (Fin b) = (if b = 0 then signed_inf (jssign (Fin a)) else Fin (a / b))"
| "jsdiv (Fin a) _ = Fin 0"
| "jsdiv a (Fin b) = signed_inf (jssign a * (if b < 0 then - 1 else 1))"
| "jsdiv _ _ = NaN"

text \<open>The comparison \<open>a > b\<close>: false as soon as one side is \<open>NaN\<close>.\<close>

fun jsgt :: "jsnum \<Rightarrow> jsnum \<Rightarrow> bool" where
  "jsgt NaN _ = False"
| "jsgt _ NaN = False"
| "jsgt (Fin a) (Fin b) = (b < a)"
| "jsgt PInf PInf = False"
| "jsgt PInf _ = True"
| "jsgt NInf _ = False"
| "jsgt (Fin a) PInf = False"
| "jsgt (Fin a) NInf = True"

text \<open>The comparison \<open>a >= b\<close>.\<close>

definition jsge :: "jsnum \<Rightarrow> jsnum \<Rightarrow> bool" where
  "jsge a b = (a \<noteq> NaN \<and> b \<noteq> NaN \<and> (a = b \<or> jsgt a b))"

text \<open>Truthiness of a number: \<open>0\<close> and \<open>NaN\<close> are falsy.\<close>

fun truthy :: "jsnum \<Rightarrow> bool" where
  "truthy (Fin a) = (a \<noteq> 0)"
| "truthy NaN = False"
| "truthy _ = True"

text \<open>The idiom \<open>x || 0\<close>.\<close>

definition or_zero :: "jsnum \<Rightarrow> jsnum" where
  "or_zero x = (if truthy x then x else Fin 0)"

text \<open>\<open>Math.round\<close>: the nearest integer, a half rounding up.\<close>

fun Math_round :: "jsnum \<Rightarrow> jsnum" where
  "Math_round (Fin a) = Fin (of_int \<lfloor>a + 1 / 2\<rfloor>)"
| "Math_round x = x"



section \<open>Strings to numbers\<close>

text \<open>
  Strings are lists of characters, one \<^typ>\<open>char\<close> for each code unit below 256.
  The three conversions the program uses follow ECMAScript: \<open>parseInt(s, 10)\<close> and
  \<open>parseFloat(s)\<close> read the longest numeric prefix after leading white space,
  \<open>Number(s)\<close> reads the whole trimmed string and maps the empty string to \<open>0\<close>.
\<close>

definition is_digit :: "char \<Rightarrow> bool" where
  "is_digit c = (48 \<le> (of_char c :: nat) \<and> (of_char c :: nat) \<le> 57)"

definition digit_val :: "char \<Rightarrow> nat" where
  "digit_val c = of_char c - 48"

definition is_space :: "char \<Rightarrow> bool" where
  "is_space c = ((of_char c :: nat) \<in> set [9, 10, 11, 12, 13, 32, 160])"

definition digits_val :: "string \<Rightarrow> nat" where
  "digits_val ds = foldl (\<lambda>n c. 10 * n + digit_val c) 0 ds"

definition is_sign :: "string \<Rightarrow> bool" where
  "is_sign s = (s \<noteq> [] \<and> (hd s = CHR ''-'' \<or> hd s = CHR ''+''))"

definition is_minus :: "string \<Rightarrow> bool" where
  "is_minus s = (s \<noteq> [] \<and> hd s = CHR ''-'')"

definition strip_sign :: "string \<Rightarrow> string" where
  "strip_sign s = (if is_sign s then tl s else s)"

text \<open>\<open>parseInt(s, 10)\<close>: the radix is 10 at every call of the program.\<close>

definition parseInt :: "string \<Rightarrow> jsnum" where
  "parseInt s =
     (let t = dropWhile is_space s;
          z = takeWhile is_digit (strip_sign t)
      in if z = [] then NaN
         else Fin (if is_minus t then - real (digits_val z) else real (digits_val z)))"

definition scale10 :: "real \<Rightarrow> int \<Rightarrow> real" where
  "scale10 m e = (if 0 \<le> e then m * 10 ^ nat e else m / 10 ^ nat (- e))"

text \<open>An optional exponent part \<open>e\<plusminus>ddd\<close>: the exponent read and the rest of the string.\<close>

definition exponent_part :: "string \<Rightarrow> int \<times> string" where
  "exponent_part s =
     (if s \<noteq> [] \<and> (hd s = CHR ''e'' \<or> hd s = CHR ''E'') then
        let u = strip_sign (tl s);
            ds = takeWhile is_digit u
        in if ds = [] then (0, s)
           else (if is_minus (tl s) then - int (digits_val ds) else int (digits_val ds),
                 dropWhile is_digit u)
      else (0, s))"

text \<open>
  The longest prefix that is an unsigned decimal literal (\<open>Infinity\<close>, \<open>12\<close>,
  \<open>12.\<close>, \<open>12.5\<close>, \<open>.5\<close>, each with an optional exponent), with the rest of the string.
  The literal is read as the exact real it denotes: \<open>1e400\<close> stays finite and
  \<open>1e-400\<close> stays above \<open>0\<close>, where a double is \<open>Infinity\<close> and \<open>0\<close>.
\<close>

definition unsigned_decimal :: "string \<Rightarrow> (jsnum \<times> string) option" where
  "unsigned_decimal s =
     (if take 8 s = ''Infinity'' then Some (PInf, drop 8 s)
      else
        let ip = takeWhile is_digit s;
            r1 = dropWhile is_digit s;
            dot = (r1 \<noteq> [] \<and> hd r1 = CHR ''.'');
            fp = (if dot then takeWhile is_digit (tl r1) else []);
            r2 = (if dot then dropWhile is_digit (tl r1) else r1)
        in if ip = [] \<and> fp = [] then None
           else Some (Fin (scale10 (real (digits_val ip) + real (digits_val fp) / 10 ^ length fp)
                             (fst (exponent_part r2))),
                      snd (exponent_part r2)))"

fun jsneg :: "jsnum \<Rightarrow> jsnum" where
  "jsneg (Fin a) = Fin (- a)"
| "jsneg PInf = NInf"
| "jsneg NInf = PInf"
| "jsneg NaN = NaN"

definition decimal_literal :: "string \<Rightarrow> (jsnum \<times> string) option" where
  "decimal_literal s =
     (case unsigned_decimal (strip_sign s) of
        None \<Rightarrow> None
      | Some (v, r) \<Rightarrow> Some (if is_minus s then jsneg v else v, r))"

definition parseFloat :: "string \<Rightarrow> jsnum" where
  "parseFloat s =
     (case decimal_literal (dropWhile is_space s) of None \<Rightarrow> NaN | Some (v, r) \<Rightarrow> v)"

definition trim :: "string \<Rightarrow> string" where
  "trim s = rev (dropWhile is_space (rev (dropWhile is_space s)))"

definition radix_digit :: "char \<Rightarrow> nat" where
  "radix_digit c =
     (let n = (of_char c :: nat)
      in if 48 \<le> n \<and> n \<le> 57 then n - 48
         else if 97 \<le> n \<and> n \<le> 102 then n - 87
         else if 65 \<le> n \<and> n \<le> 70 then n - 55
         else 16)"

definition radix_of :: "char \<Rightarrow> nat" where
  "radix_of c =
     (if c = CHR ''x'' \<or> c = CHR ''X'' then 16
      else if c = CHR ''o'' \<or> c = CHR ''O'' then 8
      else if c = CHR ''b'' \<or> c = CHR ''B'' then 2
      else 0)"

text \<open>The literals \<open>0x1F\<close>, \<open>0o17\<close> and \<open>0b101\<close>, which \<open>Number\<close> accepts unsigned.\<close>

definition radix_literal :: "string \<Rightarrow> jsnum option" where
  "radix_literal s =
     (if 2 < length s \<and> hd s = CHR ''0'' \<and> radix_of (s ! 1) \<noteq> 0
         \<and> list_all (\<lambda>c. radix_digit c < radix_of (s ! 1)) (drop 2 s)
      then Some (Fin (real (foldl (\<lambda>n c. radix_of (s ! 1) * n + radix_digit c) 0 (drop 2 s))))
      else None)"

definition Number :: "string \<Rightarrow> jsnum" where
  "Number s =
     (let t = trim s
      in if t = [] then Fin 0
         else case radix_literal t of
                Some v \<Rightarrow> v
              | None \<Rightarrow> (case decimal_literal t of
                           None \<Rightarrow> NaN
                         | Some (v, r) \<Rightarrow> if r = [] then v else NaN))"

section \<open>The data of the application\<close>

text \<open>
  The state of the equipment form. Every field holds the text of its input; the initial
  quantity is the number \<open>1\<close> in the source, which \<open>parseInt\<close> reads as the text \<open>1\<close>.
\<close>

record form_data =
  name_form :: string
  qty_form :: string
  power_form :: string
  hours_form :: string
  kwh :: string

definition INITIAL_FORM_STATE :: form_data where
  "INITIAL_FORM_STATE =
     \<lparr> name_form = [], qty_form = ''1'', power_form = [], hours_form = [], kwh = [] \<rparr>"

text \<open>One line of the equipment list.\<close>

record equipment_item =
  id_item :: nat
  name_item :: string
  qty :: jsnum
  power_item :: jsnum
  hours :: jsnum
  totalDailyKWh :: jsnum

text \<open>
  The facility information. The two numeric fields start as the numbers \<open>10\<close> and \<open>5\<close>
  and hold the text of their inputs after the first edit; \<open>Number\<close> reads both alike.
\<close>

record facility_info =
  streetAddress :: string
  zipCode :: string
  opHoursDay :: string
  opDaysWeek :: string

definition initial_facilityInfo :: facility_info where
  "initial_facilityInfo =
     \<lparr> streetAddress = [], zipCode = [], opHoursDay = ''10'', opDaysWeek = ''5'' \<rparr>"

text \<open>The object returned by \<open>calculateTotals\<close>.\<close>

record calculations =
  daily :: jsnum
  monthly :: jsnum
  annual :: jsnum
  pvSize :: jsnum
  batterySize :: jsnum
  irradianceInfo :: string

section \<open>Adding an equipment item\<close>

datatype submit_error = MissingName | MissingLoad

definition error_text :: "submit_error \<Rightarrow> string" where
  "error_text e =
     (case e of
        MissingName \<Rightarrow> ''Please provide an equipment name.''
      | MissingLoad \<Rightarrow> ''Please provide either Power and Hours, or a Daily Load kWh.'')"

text \<open>
  \<open>handleSubmit\<close>: the item handed to \<open>onAddEquipment\<close>, or the error message shown.
  The argument \<open>now\<close> is the value of \<open>Date.now()\<close>.
\<close>

definition handleSubmit :: "nat \<Rightarrow> form_data \<Rightarrow> submit_error + equipment_item" where
  "handleSubmit now formData =
     (if name_form formData = [] then Inl MissingName
      else
        let numQty = parseInt (qty_form formData);
            numKwh = parseFloat (kwh formData);
            numPower = parseInt (power_form formData);
            numHours = parseFloat (hours_form formData)
        in if jsgt numKwh (Fin 0) then
             Inr \<lparr> id_item = now, name_item = name_form formData, qty = numQty,
                   power_item = or_zero numPower, hours = or_zero numHours,
                   totalDailyKWh = jsmul numKwh numQty \<rparr>
           else if jsgt numPower (Fin 0) \<and> jsgt numHours (Fin 0) then
             Inr \<lparr> id_item = now, name_item = name_form formData, qty = numQty,
                   power_item = or_zero numPower, hours = or_zero numHours,
                   totalDailyKWh = jsdiv (jsmul (jsmul numQty numPower) numHours) (Fin 1000) \<rparr>
           else Inl MissingLoad)"

definition addEquipment :: "equipment_item \<Rightarrow> equipment_item list \<Rightarrow> equipment_item list" where
  "addEquipment item prev = prev @ [item]"

definition removeEquipment :: "nat \<Rightarrow> equipment_item list \<Rightarrow> equipment_item list" where
  "removeEquipment i prev = filter (\<lambda>item. id_item item \<noteq> i) prev"

section \<open>Editing the equipment table\<close>

text \<open>The body of the \<open>map\<close> callback of \<open>handleEdit\<close> for an item whose id matches.\<close>

definition edit_item :: "string \<Rightarrow> jsnum \<Rightarrow> equipment_item \<Rightarrow> equipment_item" where
  "edit_item field numValue item =
     (if field = ''qty'' then
        let perUnitKwh =
              (if jsgt (qty item) (Fin 0) then jsdiv (totalDailyKWh item) (qty item) else Fin 0)
        in item \<lparr> qty := numValue, totalDailyKWh := jsmul perUnitKwh numValue \<rparr>
      else if field = ''power'' then
        item \<lparr> power_item := numValue,
               totalDailyKWh := jsdiv (jsmul (jsmul (qty item) numValue) (hours item)) (Fin 1000) \<rparr>
      else if field = ''hours'' then
        item \<lparr> hours := numValue,
               totalDailyKWh := jsdiv (jsmul (jsmul (qty item) (power_item item)) numValue) (Fin 1000) \<rparr>
      else if field = ''dailyKWhPerUnit'' then
        item \<lparr> power_item := Fin 0, hours := Fin 0,
               totalDailyKWh := jsmul numValue (qty item) \<rparr>
      else item)"

text \<open>The number \<open>handleEdit\<close> reads from the text of the edited cell.\<close>

definition edit_value :: "string \<Rightarrow> string \<Rightarrow> jsnum" where
  "edit_value field v =
     (let numValue = or_zero (parseFloat v)
      in if field = ''hours'' \<and> jsgt numValue (Fin 24) then Fin 24 else numValue)"

text \<open>\<open>handleEdit\<close>: the list handed to \<open>onUpdateEquipment\<close>.\<close>

definition handleEdit ::
  "equipment_item list \<Rightarrow> nat \<Rightarrow> string \<Rightarrow> string \<Rightarrow> equipment_item list" where
  "handleEdit equipmentList i field v =
     map (\<lambda>item. if id_item item = i then edit_item field (edit_value field v) item else item)
       equipmentList"

section \<open>Facility information and the irradiance lookup\<close>

text \<open>
  \<open>handleFacilityInfoChange\<close>: \<open>i\<close> is the id of the edited input, one of the four
  field names, and \<open>v\<close> its text. The number of days is capped at 7. Under any other id
  the source would store a property that nothing reads; the record is then left as it is.
\<close>

definition capped_value :: "string \<Rightarrow> string \<Rightarrow> string" where
  "capped_value i v =
     (if i = ''opDaysWeek'' then
        (if v = [] then v else if jsgt (parseInt v) (Fin 7) then ''7'' else v)
      else v)"

definition handleFacilityInfoChange :: "facility_info \<Rightarrow> string \<Rightarrow> string \<Rightarrow> facility_info" where
  "handleFacilityInfoChange prev i v =
     (let w = capped_value i v
      in if i = ''streetAddress'' then prev \<lparr> streetAddress := w \<rparr>
         else if i = ''zipCode'' then prev \<lparr> zipCode := w \<rparr>
         else if i = ''opHoursDay'' then prev \<lparr> opHoursDay := w \<rparr>
         else if i = ''opDaysWeek'' then prev \<lparr> opDaysWeek := w \<rparr>
         else prev)"

text \<open>The part of the application state that \<open>fetchSolarData\<close> writes.\<close>

record solar_state =
  peakSunHours :: jsnum
  irradianceText :: string
  isLoading :: bool

definition initial_solar :: solar_state where
  "initial_solar =
     \<lparr> peakSunHours = Fin 4.5,
       irradianceText = ''Enter a zip code for a location-specific solar recommendation.'',
       isLoading = False \<rparr>"

text \<open>
  The branch of the lookup table that \<open>fetchSolarData\<close> takes: the peak sun hours, their
  rendering in the message and the name of the region.
\<close>

definition solar_region :: "string \<Rightarrow> jsnum \<times> string \<times> string" where
  "solar_region zipArg =
     (if take 2 zipArg = ''85'' \<or> take 2 zipArg = ''86'' then (Fin 6.5, ''6.5'', ''Arizona'')
      else if take 1 zipArg = ''9'' then (Fin 5.5, ''5.5'', ''the West Coast'')
      else if take 2 zipArg = ''98'' \<or> take 2 zipArg = ''99'' then
        (Fin 3.8, ''3.8'', ''the Pacific Northwest'')
      else if take 1 zipArg = ''3'' then (Fin 5.0, ''5'', ''the Southeast'')
      else (Fin 4.5, ''4.5'', ''an average US location''))"

text \<open>\<open>fetchSolarData\<close>: the state once the lookup has resolved.\<close>

definition fetchSolarData :: "string \<Rightarrow> solar_state \<Rightarrow> solar_state" where
  "fetchSolarData zipArg st =
     (if zipArg = [] \<or> length zipArg < 5 then
        st \<lparr> irradianceText :=
               ''Enter a valid 5-digit zip code for a location-specific solar recommendation.'',
             peakSunHours := Fin 4.5 \<rparr>
      else
        case solar_region zipArg of
          (psh, shown, loc) \<Rightarrow>
            st \<lparr> peakSunHours := psh,
                 irradianceText :=
                   ''Using solar irradiance data for '' @ loc @ ''. Est. Peak Sun Hours: ''
                     @ shown @ ''.'',
                 isLoading := False \<rparr>)"

section \<open>The sizing engine\<close>

definition daysPerWeek :: "facility_info \<Rightarrow> jsnum" where
  "daysPerWeek facilityInfo = or_zero (Number (opDaysWeek facilityInfo))"

definition totalDailyLoad :: "equipment_item list \<Rightarrow> jsnum" where
  "totalDailyLoad equipmentList =
     foldl (\<lambda>sum item. jsadd sum (totalDailyKWh item)) (Fin 0) equipmentList"

definition totalAnnualLoad :: "facility_info \<Rightarrow> equipment_item list \<Rightarrow> jsnum" where
  "totalAnnualLoad facilityInfo equipmentList =
     jsmul (totalDailyLoad equipmentList)
       (jsmul (jsdiv (daysPerWeek facilityInfo) (Fin 7)) (Fin 365.25))"

definition dailyEnergyNeeded :: "facility_info \<Rightarrow> equipment_item list \<Rightarrow> jsnum" where
  "dailyEnergyNeeded facilityInfo equipmentList =
     (if jsgt (totalAnnualLoad facilityInfo equipmentList) (Fin 0)
      then jsdiv (totalAnnualLoad facilityInfo equipmentList) (Fin 365.25)
      else Fin 0)"

definition solarPVSize :: "facility_info \<Rightarrow> equipment_item list \<Rightarrow> jsnum \<Rightarrow> jsnum" where
  "solarPVSize facilityInfo equipmentList psh =
     (if jsgt (dailyEnergyNeeded facilityInfo equipmentList) (Fin 0) \<and> jsgt psh (Fin 0)
      then jsdiv (dailyEnergyNeeded facilityInfo equipmentList) (jsmul psh (Fin 0.85))
      else Fin 0)"

text \<open>
  \<open>calculateTotals\<close>, with the state it reads as arguments: the facility information, the
  equipment list, the peak sun hours and the irradiance message.
\<close>

definition calculateTotals ::
  "facility_info \<Rightarrow> equipment_item list \<Rightarrow> jsnum \<Rightarrow> string \<Rightarrow> calculations" where
  "calculateTotals facilityInfo equipmentList psh info =
     (let daysPerMonth = jsmul (jsdiv (daysPerWeek facilityInfo) (Fin 7)) (Fin 30.44);
          totalMonthlyLoad = jsmul (totalDailyLoad equipmentList) daysPerMonth;
          rawBatterySize = jsmul (solarPVSize facilityInfo equipmentList psh) (Fin 2);
          batteryStorageSize = jsmul (Math_round (jsdiv rawBatterySize (Fin 5))) (Fin 5)
      in \<lparr> daily = totalDailyLoad equipmentList,
           monthly = totalMonthlyLoad,
           annual = totalAnnualLoad facilityInfo equipmentList,
           pvSize = solarPVSize facilityInfo equipmentList psh,
           batterySize = batteryStorageSize,
           irradianceInfo = info \<rparr>)"

section \<open>Notions used in the statements\<close>




text \<open>A sample line: one pump drawing 50 kWh a day.\<close>

definition item50 :: equipment_item where
  "item50 = \<lparr> id_item = 1, name_item = ''Pump'', qty = Fin 1, power_item = Fin 0,
              hours = Fin 0, totalDailyKWh = Fin 50 \<rparr>"





text \<open>A non-empty string of decimal digits: an integer typed in plain notation.\<close>

definition all_digits :: "string \<Rightarrow> bool" where
  "all_digits ds = (ds \<noteq> [] \<and> list_all is_digit ds)"

text \<open>Two more sample lines: a fan drawing 10 kWh a day, and two fans drawing 10 kWh together.\<close>

definition item10 :: equipment_item where
  "item10 = \<lparr> id_item = 2, name_item = ''Fan'', qty = Fin 1, power_item = Fin 0,
              hours = Fin 0, totalDailyKWh = Fin 10 \<rparr>"

definition two_fans :: equipment_item where
  "two_fans = \<lparr> id_item = 2, name_item = ''Fan'', qty = Fin 2, power_item = Fin 0,
               hours = Fin 0, totalDailyKWh = Fin 10 \<rparr>"

section \<open>Arithmetic of the number model\<close>




lemma or_zero_not_NaN: "or_zero x \<noteq> NaN"
  by (cases x; simp add: or_zero_def)

section \<open>The daily total is the sum of the line totals\<close>












section \<open>Blank fields\<close>

text \<open>The sample lines are what \<open>handleSubmit\<close> stores for three filled forms.\<close>

lemma sample_lines_submitted:
  "handleSubmit 1 (INITIAL_FORM_STATE \<lparr> name_form := ''Pump'', kwh := ''50'' \<rparr>) = Inr item50
   \<and> handleSubmit 2 (INITIAL_FORM_STATE \<lparr> name_form := ''Fan'', kwh := ''10'' \<rparr>) = Inr item10
   \<and> handleSubmit 2 (INITIAL_FORM_STATE \<lparr> name_form := ''Fan'', qty_form := ''2'', kwh := ''5'' \<rparr>)
       = Inr two_fans"
  by code_simp

lemma parseInt_blank: "parseInt [] = NaN" by code_simp
lemma parseFloat_blank: "parseFloat [] = NaN" by code_simp
lemma parseFloat_5: "parseFloat ''5'' = Fin 5" by code_simp

text \<open>
  Claim C2. Every blank or non-numeric field is replaced by \<open>0\<close> before use, so that no
  stored \<open>totalDailyKWh\<close> and no field of the result is \<open>NaN\<close>. The source replaces
  the power and the hours by \<open>0\<close> but stores and multiplies the parsed quantity as it
  is: with a name, a blank quantity and 5 kWh a unit, \<open>handleSubmit\<close> stores the total
  \<open>NaN\<close>, and \<open>calculateTotals\<close> then returns \<open>NaN\<close> as the daily, monthly and
  annual load.
\<close>

theorem handleSubmit_blank_qty:
  "handleSubmit now (INITIAL_FORM_STATE \<lparr> name_form := ''Pump'', qty_form := [], kwh := ''5'' \<rparr>)
     = Inr \<lparr> id_item = now, name_item = ''Pump'', qty = NaN, power_item = Fin 0,
             hours = Fin 0, totalDailyKWh = NaN \<rparr>
   \<and> daily (calculateTotals fi
              (addEquipment \<lparr> id_item = now, name_item = ''Pump'', qty = NaN, power_item = Fin 0,
                              hours = Fin 0, totalDailyKWh = NaN \<rparr> []) psh info) = NaN
   \<and> monthly (calculateTotals fi
              (addEquipment \<lparr> id_item = now, name_item = ''Pump'', qty = NaN, power_item = Fin 0,
                              hours = Fin 0, totalDailyKWh = NaN \<rparr> []) psh info) = NaN
   \<and> annual (calculateTotals fi
              (addEquipment \<lparr> id_item = now, name_item = ''Pump'', qty = NaN, power_item = Fin 0,
                              hours = Fin 0, totalDailyKWh = NaN \<rparr> []) psh info) = NaN"
  by (simp add: handleSubmit_def INITIAL_FORM_STATE_def parseInt_blank parseFloat_blank
      parseFloat_5 or_zero_def addEquipment_def calculateTotals_def totalAnnualLoad_def
      totalDailyLoad_def)

section \<open>The PV size and the battery size\<close>









section \<open>The sign of the outputs\<close>

lemma jsge_Fin [simp]: "jsge (Fin a) (Fin b) = (b \<le> a)"
  by (auto simp: jsge_def)












section \<open>Growing a quantity\<close>














lemma parseFloat_4: "parseFloat ''4'' = Fin 4" by code_simp

lemma edit_value_qty_4: "edit_value ''qty'' ''4'' = Fin 4"
  by (simp add: edit_value_def parseFloat_4 or_zero_def)



section \<open>The cap on the days of operation\<close>








lemma all_digits_hd: "all_digits ds \<Longrightarrow> is_digit (hd ds)"
  by (cases ds; simp add: all_digits_def)











section \<open>Coercion of the days of operation\<close>

lemma Number_blank: "Number [] = Fin 0" by code_simp
lemma Number_abc: "Number ''abc'' = NaN" by code_simp
lemma Number_minus_2: "Number ''-2'' = Fin (- 2)" by code_simp
lemma Number_minus_3: "Number ''-3'' = Fin (- 3)" by code_simp
lemma parseInt_minus_3: "parseInt ''-3'' = Fin (- 3)" by code_simp

text \<open>
  Claim C8, as amended. The number of days used by the engine is \<open>Number(opDaysWeek) || 0\<close>:
  it is never \<open>NaN\<close>, a missing or non-numeric text gives \<open>0\<close>, and every text that
  reads as a finite number, negative ones included, gives that number unchanged.
\<close>

theorem daysPerWeek_coercion:
  "daysPerWeek fi \<noteq> NaN
   \<and> (Number (opDaysWeek fi) = NaN \<longrightarrow> daysPerWeek fi = Fin 0)
   \<and> daysPerWeek (fi \<lparr> opDaysWeek := [] \<rparr>) = Fin 0
   \<and> (Number (opDaysWeek fi) = Fin d \<longrightarrow> daysPerWeek fi = Fin d)"
  by (simp add: daysPerWeek_def or_zero_not_NaN Number_blank) (simp add: or_zero_def)

text \<open>The text \<open>abc\<close> reads as \<open>NaN\<close> and the text \<open>-2\<close> as \<open>-2\<close>.\<close>

theorem daysPerWeek_coercion_witness:
  "Number (opDaysWeek (initial_facilityInfo \<lparr> opDaysWeek := ''abc'' \<rparr>)) = NaN
   \<and> daysPerWeek (initial_facilityInfo \<lparr> opDaysWeek := ''abc'' \<rparr>) = Fin 0
   \<and> Number (opDaysWeek (initial_facilityInfo \<lparr> opDaysWeek := ''-2'' \<rparr>)) = Fin (- 2)
   \<and> daysPerWeek (initial_facilityInfo \<lparr> opDaysWeek := ''-2'' \<rparr>) = Fin (- 2)"
proof -
  have h1: "Number (opDaysWeek (initial_facilityInfo \<lparr> opDaysWeek := ''abc'' \<rparr>)) = NaN"
    by (simp add: Number_abc)
  have h2: "Number (opDaysWeek (initial_facilityInfo \<lparr> opDaysWeek := ''-2'' \<rparr>)) = Fin (- 2)"
    by (simp add: Number_minus_2)
  from daysPerWeek_coercion [of "initial_facilityInfo \<lparr> opDaysWeek := ''abc'' \<rparr>" 0] h1
  have a: "daysPerWeek (initial_facilityInfo \<lparr> opDaysWeek := ''abc'' \<rparr>) = Fin 0"
    by blast
  from daysPerWeek_coercion [of "initial_facilityInfo \<lparr> opDaysWeek := ''-2'' \<rparr>" "- 2"] h2
  have b: "daysPerWeek (initial_facilityInfo \<lparr> opDaysWeek := ''-2'' \<rparr>) = Fin (- 2)"
    by blast
  from h1 h2 a b show ?thesis by blast
qed

text \<open>
  Claim C8 as stated fails: the text \<open>-3\<close> typed into the days field gives \<open>-3\<close>
  days, below \<open>0\<close>, where \<open>max(0, -3)\<close> is \<open>0\<close>.
\<close>

theorem daysPerWeek_negative_counterexample:
  "daysPerWeek (handleFacilityInfoChange initial_facilityInfo ''opDaysWeek'' ''-3'') = Fin (- 3)
   \<and> \<not> jsge (daysPerWeek (handleFacilityInfoChange initial_facilityInfo ''opDaysWeek'' ''-3''))
            (Fin 0)"
  by (simp add: handleFacilityInfoChange_def capped_value_def parseInt_minus_3
      daysPerWeek_def Number_minus_3 or_zero_def)

section \<open>Editing a quantity\<close>

lemma handleEdit_nth:
  "i < length items \<Longrightarrow> id_item (items ! i) = ident \<Longrightarrow>
     handleEdit items ident field v ! i = edit_item field (edit_value field v) (items ! i)"
  by (simp add: handleEdit_def)

text \<open>
  Claim C9. Editing the quantity of a line whose quantity is positive gives the new total
  \<open>(old total / old quantity) * new quantity\<close>; changing the quantity from 2 to 4 on a
  line with the total 10 gives the total 20.
\<close>

theorem qty_edit_rescales:
  "(i < length items \<and> id_item (items ! i) = ident \<and> jsgt (qty (items ! i)) (Fin 0) \<longrightarrow>
      totalDailyKWh (handleEdit items ident ''qty'' v ! i)
        = jsmul (jsdiv (totalDailyKWh (items ! i)) (qty (items ! i))) (edit_value ''qty'' v)
      \<and> qty (handleEdit items ident ''qty'' v ! i) = edit_value ''qty'' v)
   \<and> (i < length items \<and> id_item (items ! i) = ident \<and> qty (items ! i) = Fin q \<and> 0 < q
       \<and> totalDailyKWh (items ! i) = Fin t \<and> edit_value ''qty'' v = Fin q' \<longrightarrow>
      totalDailyKWh (handleEdit items ident ''qty'' v ! i) = Fin (t / q * q'))
   \<and> handleEdit [two_fans] 2 ''qty'' ''4'' = [two_fans \<lparr> qty := Fin 4, totalDailyKWh := Fin 20 \<rparr>]"
proof (intro conjI impI)
  assume "i < length items \<and> id_item (items ! i) = ident \<and> jsgt (qty (items ! i)) (Fin 0)"
  then show "totalDailyKWh (handleEdit items ident ''qty'' v ! i)
      = jsmul (jsdiv (totalDailyKWh (items ! i)) (qty (items ! i))) (edit_value ''qty'' v)"
    and "qty (handleEdit items ident ''qty'' v ! i) = edit_value ''qty'' v"
    by (simp_all add: handleEdit_nth edit_item_def)
next
  assume "i < length items \<and> id_item (items ! i) = ident \<and> qty (items ! i) = Fin q \<and> 0 < q
       \<and> totalDailyKWh (items ! i) = Fin t \<and> edit_value ''qty'' v = Fin q'"
  then show "totalDailyKWh (handleEdit items ident ''qty'' v ! i) = Fin (t / q * q')"
    by (simp add: handleEdit_nth edit_item_def)
next
  show "handleEdit [two_fans] 2 ''qty'' ''4'' = [two_fans \<lparr> qty := Fin 4, totalDailyKWh := Fin 20 \<rparr>]"
    by (simp add: handleEdit_def edit_item_def edit_value_qty_4 two_fans_def)
qed

lemma parseFloat_6: "parseFloat ''6'' = Fin 6" by code_simp

text \<open>Changing the quantity of the two fans, the second line of a list, from 2 to 6.\<close>

theorem qty_edit_rescales_witness:
  "(1::nat) < length [item50, two_fans] \<and> id_item ([item50, two_fans] ! 1) = 2
   \<and> jsgt (qty ([item50, two_fans] ! 1)) (Fin 0)
   \<and> edit_value ''qty'' ''6'' = Fin 6
   \<and> totalDailyKWh (handleEdit [item50, two_fans] 2 ''qty'' ''6'' ! 1) = Fin 30
   \<and> qty (handleEdit [item50, two_fans] 2 ''qty'' ''6'' ! 1) = Fin 6"
proof -
  have h1: "1 < length [item50, two_fans] \<and> id_item ([item50, two_fans] ! 1) = 2
      \<and> jsgt (qty ([item50, two_fans] ! 1)) (Fin 0)"
    by (simp add: two_fans_def)
  have h2: "qty ([item50, two_fans] ! 1) = Fin 2 \<and> (0::real) < 2
      \<and> totalDailyKWh ([item50, two_fans] ! 1) = Fin 10"
    by (simp add: two_fans_def)
  have h3: "edit_value ''qty'' ''6'' = Fin 6"
    by (simp add: edit_value_def parseFloat_6 or_zero_def)
  note t = qty_edit_rescales [of 1 "[item50, two_fans]" 2 "''6''" 2 10 6]
  have a: "totalDailyKWh (handleEdit [item50, two_fans] 2 ''qty'' ''6'' ! 1) = Fin (10 / 2 * 6)"
    using t h1 h2 h3 by blast
  have b: "qty (handleEdit [item50, two_fans] 2 ''qty'' ''6'' ! 1) = edit_value ''qty'' ''6''"
    using t h1 by blast
  from a b h1 h3 show ?thesis by simp
qed

section \<open>The irradiance lookup\<close>

lemma take_98: "take 2 z = ''98'' \<or> take 2 z = ''99'' \<Longrightarrow> take 1 z = ''9''"
  by (cases z) auto

lemma solar_region_never_northwest: "fst (solar_region z) \<noteq> Fin 3.8"
  using take_98 [of z] by (auto simp: solar_region_def)

lemma solar_region_9:
  assumes "take 1 z = ''9''"
  shows "fst (solar_region z) = Fin 5.5"
proof -
  from assms obtain zs where z: "z = CHR ''9'' # zs"
    by (cases z) auto
  show ?thesis by (cases zs; simp add: z solar_region_def)
qed

lemma peakSunHours_fetch:
  "peakSunHours (fetchSolarData z st)
     = (if length z < 5 then Fin 4.5 else fst (solar_region z))"
  by (cases "solar_region z") (auto simp: fetchSolarData_def)

text \<open>
  Claim C10, as amended. For every zip code of at least 5 characters whose first character
  is \<open>9\<close>, those starting with \<open>98\<close> or \<open>99\<close> included, the lookup gives 5.5 peak
  sun hours; a zip code of fewer than 5 characters gives the default 4.5; and no zip code
  gives 3.8.
\<close>

theorem west_coast_shadows_northwest:
  "(5 \<le> length z \<and> take 1 z = ''9'' \<longrightarrow> peakSunHours (fetchSolarData z st) = Fin 5.5)
   \<and> (length z < 5 \<longrightarrow> peakSunHours (fetchSolarData z st) = Fin 4.5)
   \<and> peakSunHours (fetchSolarData z st) \<noteq> Fin 3.8
   \<and> peakSunHours (fetchSolarData ''98101'' st) = Fin 5.5
   \<and> peakSunHours (fetchSolarData ''99501'' st) = Fin 5.5"
proof (intro conjI impI)
  assume "5 \<le> length z \<and> take 1 z = ''9''"
  then show "peakSunHours (fetchSolarData z st) = Fin 5.5"
    by (simp add: peakSunHours_fetch solar_region_9)
next
  assume "length z < 5"
  then show "peakSunHours (fetchSolarData z st) = Fin 4.5"
    by (simp add: peakSunHours_fetch)
next
  show "peakSunHours (fetchSolarData z st) \<noteq> Fin 3.8"
    using solar_region_never_northwest [of z] by (simp add: peakSunHours_fetch)
next
  show "peakSunHours (fetchSolarData ''98101'' st) = Fin 5.5"
    by (simp add: peakSunHours_fetch solar_region_9)
  show "peakSunHours (fetchSolarData ''99501'' st) = Fin 5.5"
    by (simp add: peakSunHours_fetch solar_region_9)
qed

text \<open>The zip code \<open>94043\<close> has five characters, the text \<open>9\<close> has one.\<close>

theorem west_coast_shadows_northwest_witness:
  "(5::nat) \<le> length ''94043'' \<and> take 1 ''94043'' = ''9''
   \<and> peakSunHours (fetchSolarData ''94043'' initial_solar) = Fin 5.5
   \<and> length ''9'' < (5::nat)
   \<and> peakSunHours (fetchSolarData ''9'' initial_solar) = Fin 4.5"
proof -
  have h1: "5 \<le> length ''94043'' \<and> take 1 ''94043'' = ''9''" by simp
  have h2: "length ''9'' < 5" by simp
  from west_coast_shadows_northwest [of "''94043''" initial_solar] h1
  have a: "peakSunHours (fetchSolarData ''94043'' initial_solar) = Fin 5.5" by blast
  from west_coast_shadows_northwest [of "''9''" initial_solar] h2
  have b: "peakSunHours (fetchSolarData ''9'' initial_solar) = Fin 4.5" by blast
  from h1 h2 a b show ?thesis by simp
qed

text \<open>
  Claim C10 as stated fails: the text \<open>98\<close> starts with \<open>9\<close> and the lookup gives
  the default 4.5, not 5.5.
\<close>

theorem short_zip_counterexample:
  "take 1 ''98'' = ''9''
   \<and> peakSunHours (fetchSolarData ''98'' initial_solar) = Fin 4.5
   \<and> peakSunHours (fetchSolarData ''98'' initial_solar) \<noteq> Fin 5.5"
  by (simp add: fetchSolarData_def)

end
